theory Spec2Isabelle
  imports Complex_Main "HOL-Library.Word"
begin

section \<open>JavaScript values read and written by src/index.js\<close>

text \<open>
  Every message handled by the relay is the result of \<^verbatim>\<open>JSON.parse\<close>, so the values the
  handlers inspect are JSON values. A JSON number is carried as the rational its decimal
  text denotes (the rounding to a double is not modelled; no handler computes with a
  number). An object is the list of its members in source order.
\<close>

datatype json =
    JNull
  | JBool bool
  | JNum rat
  | JStr string
  | JArr "json list"
  | JObj "(string \<times> json) list"

text \<open>A JavaScript value is a JSON value or \<^verbatim>\<open>undefined\<close> (here \<open>None\<close>).\<close>

type_synonym jsval = "json option"

datatype error = SyntaxError | TypeError

text \<open>
  A frame delivered by a WebSocket: its text either is the serialisation of a JSON value
  or is not JSON at all. \<^verbatim>\<open>JSON.parse\<close> returns the value or throws a SyntaxError.
\<close>

datatype wire = Json_text json | Not_json string

fun JSON_parse :: "wire \<Rightarrow> error + json" where
  "JSON_parse (Json_text v) = Inr v"
| "JSON_parse (Not_json s) = Inl SyntaxError"

text \<open>
  Property access \<^verbatim>\<open>v.k\<close> for the property names this program reads (event, media,
  payload, start, streamSid, type, delta), none of which exists on a built-in prototype:
  reading a property of \<^verbatim>\<open>null\<close> or \<^verbatim>\<open>undefined\<close> throws a TypeError, a parsed
  object yields the member (the last one when the text repeats a key, as
  \<^verbatim>\<open>JSON.parse\<close> keeps it) or \<^verbatim>\<open>undefined\<close>, and every other value yields
  \<^verbatim>\<open>undefined\<close>.
\<close>

fun get_prop :: "json \<Rightarrow> string \<Rightarrow> error + jsval" where
  "get_prop JNull k = Inl TypeError"
| "get_prop (JObj kvs) k = Inr (map_of (rev kvs) k)"
| "get_prop (JBool b) k = Inr None"
| "get_prop (JNum n) k = Inr None"
| "get_prop (JStr s) k = Inr None"
| "get_prop (JArr xs) k = Inr None"

fun read_prop :: "jsval \<Rightarrow> string \<Rightarrow> error + jsval" where
  "read_prop None k = Inl TypeError"
| "read_prop (Some v) k = get_prop v k"

text \<open>\<^verbatim>\<open>v === 'literal'\<close>: true only for a string with the same characters.\<close>

fun strict_eq :: "jsval \<Rightarrow> string \<Rightarrow> bool" where
  "strict_eq (Some (JStr s)) lit = (s = lit)"
| "strict_eq _ lit = False"

text \<open>\<^verbatim>\<open>Array.prototype.includes\<close> on an array of string literals.\<close>

definition array_includes :: "string list \<Rightarrow> jsval \<Rightarrow> bool" where
  "array_includes lits v = (\<exists>lit \<in> set lits. strict_eq v lit)"

text \<open>Truthiness, as tested by \<^verbatim>\<open>&& response.delta\<close>.\<close>

fun truthy :: "jsval \<Rightarrow> bool" where
  "truthy None = False"
| "truthy (Some JNull) = False"
| "truthy (Some (JBool b)) = b"
| "truthy (Some (JNum n)) = (n \<noteq> 0)"
| "truthy (Some (JStr s)) = (s \<noteq> [])"
| "truthy (Some (JArr xs)) = True"
| "truthy (Some (JObj kvs)) = True"

text \<open>
  \<^verbatim>\<open>JSON.stringify\<close> of an object literal whose member values are JavaScript values:
  a member whose value is \<^verbatim>\<open>undefined\<close> is left out of the text. The result is the
  JSON value that the text sent on the socket denotes.
\<close>

fun JSON_stringify :: "(string \<times> jsval) list \<Rightarrow> json" where
  "JSON_stringify members =
     JObj (concat (map (\<lambda>(k, v). case v of None \<Rightarrow> [] | Some j \<Rightarrow> [(k, j)]) members))"

section \<open>Session state, events and effects\<close>

datatype readyState = CONNECTING | OPEN | CLOSING | CLOSED

text \<open>
  The variables of one \<^verbatim>\<open>/media-stream\<close> connection handler (index.js lines 63-168):
  \<^verbatim>\<open>streamSid\<close>, the \<^verbatim>\<open>readyState\<close> of the two sockets, and the number of
  \<^verbatim>\<open>setTimeout(sendSessionUpdate, 250)\<close> timers that have not fired yet.
\<close>

record session =
  streamSid :: jsval
  openAiWs :: readyState
  connection :: readyState
  timeouts :: nat

text \<open>
  What a handler does to the outside: the calls it makes on the two sockets and on the
  console. A console call is recorded by its fixed first argument; the values printed
  after it are not recorded. A send is recorded by the JSON value whose text is passed.
  Whether the transport puts a send on the wire when the socket is no longer open is the
  WebSocket library's business and is not part of this model.
\<close>

datatype effect =
    OpenAiWs_send json
  | Connection_send json
  | OpenAiWs_close
  | Console_log string
  | Console_error string

section \<open>Telephony message handler (index.js lines 126-152)\<close>

definition connection_on_message_try :: "session \<Rightarrow> wire \<Rightarrow> error + session \<times> effect list" where
  "connection_on_message_try st message =
     (case JSON_parse message of
        Inl e \<Rightarrow> Inl e
      | Inr data \<Rightarrow>
          (case get_prop data ''event'' of
             Inl e \<Rightarrow> Inl e
           | Inr ev \<Rightarrow>
               if strict_eq ev ''media'' then
                 (if openAiWs st = OPEN then
                    (case get_prop data ''media'' of
                       Inl e \<Rightarrow> Inl e
                     | Inr media \<Rightarrow>
                         (case read_prop media ''payload'' of
                            Inl e \<Rightarrow> Inl e
                          | Inr payload \<Rightarrow>
                              Inr (st, [OpenAiWs_send (JSON_stringify
                                     [(''type'', Some (JStr ''input_audio_buffer.append'')),
                                      (''audio'', payload)])])))
                  else Inr (st, []))
               else if strict_eq ev ''start'' then
                 (case get_prop data ''start'' of
                    Inl e \<Rightarrow> Inl e
                  | Inr start \<Rightarrow>
                      (case read_prop start ''streamSid'' of
                         Inl e \<Rightarrow> Inl e
                       | Inr sid \<Rightarrow>
                           Inr (st\<lparr>streamSid := sid\<rparr>,
                                [Console_log ''El stream entrante ha comenzado''])))
               else Inr (st, [Console_log ''Evento no relacionado con medios recibido:''])))"

definition connection_on_message :: "session \<Rightarrow> wire \<Rightarrow> session \<times> effect list" where
  "connection_on_message st message =
     (case connection_on_message_try st message of
        Inr r \<Rightarrow> r
      | Inl e \<Rightarrow> (st, [Console_error ''Error al analizar el mensaje:'']))"

section \<open>Base64 text of a Buffer\<close>

text \<open>
  \<^verbatim>\<open>Buffer.from(s, 'base64').toString('base64')\<close> is platform code. The encoder is
  RFC 4648 with padding. The decoder follows Node's lenient one: characters outside the
  alphabet are skipped, the URL-safe characters are accepted, decoding stops at the first
  padding character, and an incomplete final group yields the bytes it determines.
  A string is held here as its UTF-8 bytes, so the decoder is Node's on ASCII text only:
  for a character outside ASCII Node decodes the low byte of its UTF-16 code unit, where
  this decoder skips the character's bytes.
\<close>

definition b64_char :: "nat \<Rightarrow> char" where
  "b64_char n =
     (if n < 26 then char_of (65 + n)
      else if n < 52 then char_of (71 + n)
      else if n < 62 then char_of (n - 4)
      else if n = 62 then CHR ''+''
      else CHR ''/'')"

definition unbase64 :: "char \<Rightarrow> nat option" where
  "unbase64 c =
     (let k = (of_char c :: nat) in
      if 65 \<le> k \<and> k \<le> 90 then Some (k - 65)
      else if 97 \<le> k \<and> k \<le> 122 then Some (k - 71)
      else if 48 \<le> k \<and> k \<le> 57 then Some (k + 4)
      else if c = CHR ''+'' \<or> c = CHR ''-'' then Some 62
      else if c = CHR ''/'' \<or> c = CHR ''_'' then Some 63
      else None)"

fun toString_base64 :: "8 word list \<Rightarrow> string" where
  "toString_base64 [] = []"
| "toString_base64 [a] =
     [b64_char (unat a div 4), b64_char ((unat a mod 4) * 16), CHR ''='', CHR ''='']"
| "toString_base64 [a, b] =
     [b64_char (unat a div 4), b64_char ((unat a mod 4) * 16 + unat b div 16),
      b64_char ((unat b mod 16) * 4), CHR ''='']"
| "toString_base64 (a # b # c # rest) =
     [b64_char (unat a div 4), b64_char ((unat a mod 4) * 16 + unat b div 16),
      b64_char ((unat b mod 16) * 4 + unat c div 64), b64_char (unat c mod 64)]
     @ toString_base64 rest"

fun sextets :: "string \<Rightarrow> nat list" where
  "sextets [] = []"
| "sextets (c # cs) =
     (if c = CHR ''='' then []
      else case unbase64 c of Some n \<Rightarrow> n # sextets cs | None \<Rightarrow> sextets cs)"

fun bytes_of_sextets :: "nat list \<Rightarrow> 8 word list" where
  "bytes_of_sextets (s1 # s2 # s3 # s4 # rest) =
     [of_nat (s1 * 4 + s2 div 16), of_nat ((s2 mod 16) * 16 + s3 div 4),
      of_nat ((s3 mod 4) * 64 + s4)] @ bytes_of_sextets rest"
| "bytes_of_sextets [s1, s2, s3] =
     [of_nat (s1 * 4 + s2 div 16), of_nat ((s2 mod 16) * 16 + s3 div 4)]"
| "bytes_of_sextets [s1, s2] = [of_nat (s1 * 4 + s2 div 16)]"
| "bytes_of_sextets [s1] = []"
| "bytes_of_sextets [] = []"

definition Buffer_from_base64 :: "string \<Rightarrow> 8 word list" where
  "Buffer_from_base64 s = bytes_of_sextets (sextets s)"

text \<open>
  \<^verbatim>\<open>Buffer.from(v, 'base64').toString('base64')\<close> for a JavaScript value \<open>v\<close>. A string is
  decoded; \<^verbatim>\<open>undefined\<close>, \<^verbatim>\<open>null\<close>, a boolean and a number make \<^verbatim>\<open>Buffer.from\<close>
  throw a TypeError. What the platform makes of an array or an object (the bytes of an
  array-like, or a TypeError) is left to the parameter \<open>from_object\<close>.
\<close>

fun Buffer_from_toString :: "(json \<Rightarrow> error + 8 word list) \<Rightarrow> jsval \<Rightarrow> error + string" where
  "Buffer_from_toString from_object (Some (JStr s)) = Inr (toString_base64 (Buffer_from_base64 s))"
| "Buffer_from_toString from_object (Some (JArr xs)) =
     (case from_object (JArr xs) of Inl e \<Rightarrow> Inl e | Inr bytes \<Rightarrow> Inr (toString_base64 bytes))"
| "Buffer_from_toString from_object (Some (JObj kvs)) =
     (case from_object (JObj kvs) of Inl e \<Rightarrow> Inl e | Inr bytes \<Rightarrow> Inr (toString_base64 bytes))"
| "Buffer_from_toString from_object (Some (JNum n)) = Inl TypeError"
| "Buffer_from_toString from_object (Some (JBool b)) = Inl TypeError"
| "Buffer_from_toString from_object (Some JNull) = Inl TypeError"
| "Buffer_from_toString from_object None = Inl TypeError"

section \<open>AI-side handlers (index.js lines 24-38, 75-123, 161-167)\<close>

definition SYSTEM_MESSAGE :: string where
  "SYSTEM_MESSAGE =
     ''Eres un asistente muy obediente, te gusta ense'' @ [CHR 0xC3, CHR 0xB1]
     @ ''arme sobre finanzas y econom'' @ [CHR 0xC3, CHR 0xAD]
     @ ''a. Habl'' @ [CHR 0xC3, CHR 0xA1] @ ''s espa'' @ [CHR 0xC3, CHR 0xB1]
     @ ''ol con el acento paraguayo''"

definition VOICE :: string where
  "VOICE = ''alloy''"

definition LOG_EVENT_TYPES :: "string list" where
  "LOG_EVENT_TYPES =
     [''response.content.done'', ''rate_limits.updated'', ''response.done'',
      ''input_audio_buffer.committed'', ''input_audio_buffer.speech_stopped'',
      ''input_audio_buffer.speech_started'', ''session.created'']"

definition sessionUpdate :: json where
  "sessionUpdate =
     JSON_stringify
       [(''type'', Some (JStr ''session.update'')),
        (''session'', Some (JSON_stringify
           [(''turn_detection'', Some (JSON_stringify [(''type'', Some (JStr ''server_vad''))])),
            (''input_audio_format'', Some (JStr ''g711_ulaw'')),
            (''output_audio_format'', Some (JStr ''g711_ulaw'')),
            (''voice'', Some (JStr VOICE)),
            (''instructions'', Some (JStr SYSTEM_MESSAGE)),
            (''modalities'', Some (JArr [JStr ''text'', JStr ''audio''])),
            (''temperature'', Some (JNum (8 / 10)))]))]"

definition sendSessionUpdate :: "session \<Rightarrow> session \<times> effect list" where
  "sendSessionUpdate st =
     (st, [Console_log (''Enviando actualizaci'' @ [CHR 0xC3, CHR 0xB3] @ ''n de sesi''
                        @ [CHR 0xC3, CHR 0xB3] @ ''n:''),
           OpenAiWs_send sessionUpdate])"

text \<open>\<^verbatim>\<open>setTimeout(sendSessionUpdate, 250)\<close> adds one pending timer.\<close>

definition openAiWs_on_open :: "session \<Rightarrow> session \<times> effect list" where
  "openAiWs_on_open st =
     (st\<lparr>timeouts := Suc (timeouts st)\<rparr>, [Console_log ''Conectado a la API Realtime de OpenAI''])"

text \<open>
  The body of the \<^verbatim>\<open>try\<close>: the effects made so far and the exception, if one was thrown.
\<close>

definition openAiWs_on_message_try ::
  "(json \<Rightarrow> error + 8 word list) \<Rightarrow> session \<Rightarrow> wire \<Rightarrow> effect list \<times> error option" where
  "openAiWs_on_message_try from_object st data =
     (case JSON_parse data of
        Inl e \<Rightarrow> ([], Some e)
      | Inr response \<Rightarrow>
          (case get_prop response ''type'' of
             Inl e \<Rightarrow> ([], Some e)
           | Inr ty \<Rightarrow>
               let logged =
                     (if array_includes LOG_EVENT_TYPES ty
                      then [Console_log ''Evento recibido: ''] else [])
                     @ (if strict_eq ty ''session.updated''
                        then [Console_log (''Sesi'' @ [CHR 0xC3, CHR 0xB3]
                                           @ ''n actualizada correctamente:'')]
                        else [])
               in if strict_eq ty ''response.audio.delta'' then
                    (case get_prop response ''delta'' of
                       Inl e \<Rightarrow> (logged, Some e)
                     | Inr delta \<Rightarrow>
                         if truthy delta then
                           (case Buffer_from_toString from_object delta of
                              Inl e \<Rightarrow> (logged, Some e)
                            | Inr payload \<Rightarrow>
                                (logged @ [Connection_send (JSON_stringify
                                   [(''event'', Some (JStr ''media'')),
                                    (''streamSid'', streamSid st),
                                    (''media'', Some (JSON_stringify
                                       [(''payload'', Some (JStr payload))]))])],
                                 None))
                         else (logged, None))
                  else (logged, None)))"

definition openAiWs_on_message ::
  "(json \<Rightarrow> error + 8 word list) \<Rightarrow> session \<Rightarrow> wire \<Rightarrow> session \<times> effect list" where
  "openAiWs_on_message from_object st data =
     (case openAiWs_on_message_try from_object st data of
        (effects, None) \<Rightarrow> (st, effects)
      | (effects, Some e) \<Rightarrow>
          (st, effects @ [Console_error ''Error al procesar el mensaje de OpenAI:'']))"

definition openAiWs_on_close :: "session \<Rightarrow> session \<times> effect list" where
  "openAiWs_on_close st = (st, [Console_log ''Desconectado de la API Realtime de OpenAI''])"

definition openAiWs_on_error :: "session \<Rightarrow> session \<times> effect list" where
  "openAiWs_on_error st = (st, [Console_error ''Error en el WebSocket de OpenAI:''])"

section \<open>Telephony close handler (index.js lines 155-158)\<close>

text \<open>\<^verbatim>\<open>openAiWs.close()\<close> on an open socket starts the closing handshake: CLOSING.\<close>

definition connection_on_close :: "session \<Rightarrow> session \<times> effect list" where
  "connection_on_close st =
     (if openAiWs st = OPEN
      then (st\<lparr>openAiWs := CLOSING\<rparr>, [OpenAiWs_close, Console_log ''Cliente desconectado.''])
      else (st, [Console_log ''Cliente desconectado.'']))"

section \<open>One session as an event-driven machine\<close>

text \<open>
  The session starts when the telephony socket is accepted (index.js lines 63-73): the AI
  socket is being opened and \<^verbatim>\<open>streamSid\<close> is \<^verbatim>\<open>null\<close>.
\<close>

definition media_stream :: "session \<times> effect list" where
  "media_stream =
     (\<lparr>streamSid = Some JNull, openAiWs = CONNECTING, connection = OPEN, timeouts = 0\<rparr>,
      [Console_log ''Cliente conectado''])"

datatype event =
    On_connection_message wire
  | On_connection_close
  | On_openAiWs_open
  | On_openAiWs_message wire
  | On_openAiWs_close
  | On_openAiWs_error
  | On_timeout

text \<open>
  The event loop runs one handler at a time. Before a socket emits \<^verbatim>\<open>open\<close>,
  \<^verbatim>\<open>close\<close> or \<^verbatim>\<open>error\<close> the library has set its \<^verbatim>\<open>readyState\<close> (OPEN, CLOSED,
  CLOSING); a timer fires only if one is pending.
\<close>

fun step :: "(json \<Rightarrow> error + 8 word list) \<Rightarrow> session \<Rightarrow> event \<Rightarrow> session \<times> effect list" where
  "step from_object st (On_connection_message message) = connection_on_message st message"
| "step from_object st On_connection_close = connection_on_close (st\<lparr>connection := CLOSED\<rparr>)"
| "step from_object st On_openAiWs_open = openAiWs_on_open (st\<lparr>openAiWs := OPEN\<rparr>)"
| "step from_object st (On_openAiWs_message data) = openAiWs_on_message from_object st data"
| "step from_object st On_openAiWs_close = openAiWs_on_close (st\<lparr>openAiWs := CLOSED\<rparr>)"
| "step from_object st On_openAiWs_error = openAiWs_on_error (st\<lparr>openAiWs := CLOSING\<rparr>)"
| "step from_object st On_timeout =
     (if timeouts st = 0 then (st, [])
      else sendSessionUpdate (st\<lparr>timeouts := timeouts st - 1\<rparr>))"

fun run :: "(json \<Rightarrow> error + 8 word list) \<Rightarrow> session \<Rightarrow> event list \<Rightarrow> session \<times> effect list" where
  "run from_object st [] = (st, [])"
| "run from_object st (ev # evs) =
     (case step from_object st ev of
        (st', effects) \<Rightarrow>
          (case run from_object st' evs of
             (st'', effects') \<Rightarrow> (st'', effects @ effects')))"

text \<open>
  The events that reach the assignment \<^verbatim>\<open>streamSid = data.start.streamSid\<close>: telephony
  messages that parse and whose \<open>event\<close> selects \<^verbatim>\<open>case 'start'\<close>.
\<close>

fun is_start :: "event \<Rightarrow> bool" where
  "is_start (On_connection_message (Json_text data)) =
     (case get_prop data ''event'' of Inl e \<Rightarrow> False | Inr ev \<Rightarrow> strict_eq ev ''start'')"
| "is_start ev = False"

section \<open>Decoding the text of a Buffer gives the Buffer back\<close>

lemma of_char_b64_char:
  "n < 64 \<Longrightarrow> (of_char (b64_char n) :: nat) =
     (if n < 26 then 65 + n else if n < 52 then 71 + n else if n < 62 then n - 4
      else if n = 62 then 43 else 47)"
  by (simp add: b64_char_def)

lemma char_eq_code:
  "c = CHR ''='' \<longleftrightarrow> (of_char c :: nat) = 61"
  "c = CHR ''+'' \<longleftrightarrow> (of_char c :: nat) = 43"
  "c = CHR ''-'' \<longleftrightarrow> (of_char c :: nat) = 45"
  "c = CHR ''/'' \<longleftrightarrow> (of_char c :: nat) = 47"
  "c = CHR ''_'' \<longleftrightarrow> (of_char c :: nat) = 95"
  by (cases c; simp)+

lemma b64_char_not_pad: "n < 64 \<Longrightarrow> b64_char n \<noteq> CHR ''=''"
  unfolding char_eq_code by (simp add: of_char_b64_char) arith

lemma unbase64_b64_char: "n < 64 \<Longrightarrow> unbase64 (b64_char n) = Some n"
  unfolding unbase64_def Let_def char_eq_code
  by (simp add: of_char_b64_char) arith

lemma sextets_b64_char:
  "n < 64 \<Longrightarrow> sextets (b64_char n # cs) = n # sextets cs"
  by (simp add: b64_char_not_pad unbase64_b64_char)


lemma sextets_pad: "sextets (CHR ''='' # cs) = []"
  by simp

lemma unat_byte: "unat (a :: 8 word) < 256"
  using unsigned_less [of a, where ?'a = nat] by simp

lemma sextet_bounds:
  fixes x y z :: nat
  assumes "x < 256" "y < 256" "z < 256"
  shows "x div 4 < 64" "(x mod 4) * 16 < 64" "(x mod 4) * 16 + y div 16 < 64"
    "(y mod 16) * 4 < 64" "(y mod 16) * 4 + z div 64 < 64" "z mod 64 < 64"
  using assms by auto

lemma regroup:
  fixes x y z :: nat
  assumes "x < 256" "y < 256" "z < 256"
  shows "x div 4 * 4 + ((x mod 4) * 16 + y div 16) div 16 = x"
    "x div 4 * 4 + ((x mod 4) * 16) div 16 = x"
    "(((x mod 4) * 16 + y div 16) mod 16) * 16 + ((y mod 16) * 4 + z div 64) div 4 = y"
    "(((x mod 4) * 16 + y div 16) mod 16) * 16 + ((y mod 16) * 4) div 4 = y"
    "(((y mod 16) * 4 + z div 64) mod 4) * 64 + z mod 64 = z"
  using assms by auto

lemma regroup_word:
  fixes a b c :: "8 word"
  shows "word_of_nat (unat a div 4 * 4 + ((unat a mod 4) * 16 + unat b div 16) div 16) = a"
    "word_of_nat (unat a div 4 * 4 + ((unat a mod 4) * 16) div 16) = a"
    "word_of_nat ((((unat a mod 4) * 16 + unat b div 16) mod 16) * 16
        + ((unat b mod 16) * 4 + unat c div 64) div 4) = b"
    "word_of_nat ((((unat a mod 4) * 16 + unat b div 16) mod 16) * 16
        + ((unat b mod 16) * 4) div 4) = b"
    "word_of_nat ((((unat b mod 16) * 4 + unat c div 64) mod 4) * 64 + unat c mod 64) = c"
  by (simp_all only: regroup [OF unat_byte unat_byte unat_byte] of_nat_unat ucast_id)

lemma sextets_group:
  fixes a b c :: "8 word"
  shows "sextets (toString_base64 [a]) = [unat a div 4, (unat a mod 4) * 16]"
    "sextets (toString_base64 [a, b]) =
       [unat a div 4, (unat a mod 4) * 16 + unat b div 16, (unat b mod 16) * 4]"
    "sextets (toString_base64 (a # b # c # rest)) =
       [unat a div 4, (unat a mod 4) * 16 + unat b div 16,
        (unat b mod 16) * 4 + unat c div 64, unat c mod 64] @ sextets (toString_base64 rest)"
  by (simp_all only: toString_base64.simps append.simps sextets_b64_char sextets_pad
      sextet_bounds [OF unat_byte unat_byte unat_byte])

lemma Buffer_from_toString_base64: "Buffer_from_base64 (toString_base64 bytes) = bytes"
proof (induction bytes rule: toString_base64.induct)
  case 1
  show ?case by (simp add: Buffer_from_base64_def)
next
  case (2 a)
  show ?case
    unfolding Buffer_from_base64_def sextets_group bytes_of_sextets.simps
    by (simp only: regroup_word)
next
  case (3 a b)
  show ?case
    unfolding Buffer_from_base64_def sextets_group bytes_of_sextets.simps
    by (simp only: regroup_word)
next
  case (4 a b c rest)
  then show ?case
    unfolding Buffer_from_base64_def sextets_group append.simps bytes_of_sextets.simps
    by (simp only: regroup_word)
qed

lemma toString_base64_eq_Nil: "toString_base64 bytes = [] \<longleftrightarrow> bytes = []"
  by (induction bytes rule: toString_base64.induct) simp_all

section \<open>Telephony to AI: forwarding and dropping of media\<close>

lemma media_ready:
  assumes "openAiWs st = OPEN"
    and "get_prop d ''event'' = Inr (Some (JStr ''media''))"
    and "get_prop d ''media'' = Inr (Some m)"
    and "get_prop m ''payload'' = Inr payload"
  shows "connection_on_message st (Json_text d) =
     (st, [OpenAiWs_send (JSON_stringify
        [(''type'', Some (JStr ''input_audio_buffer.append'')), (''audio'', payload)])])"
  using assms by (simp add: connection_on_message_def connection_on_message_try_def)

lemma media_not_ready:
  assumes "openAiWs st \<noteq> OPEN"
    and "get_prop d ''event'' = Inr (Some (JStr ''media''))"
  shows "connection_on_message st (Json_text d) = (st, [])"
  using assms by (simp add: connection_on_message_def connection_on_message_try_def)

text \<open>
  Claim C1. While the AI socket is OPEN, every telephony message whose \<open>event\<close> is
  \<open>media\<close> and whose \<open>media.payload\<close> is a string makes the handler send exactly one
  \<open>input_audio_buffer.append\<close> message to the AI socket, with \<open>audio\<close> equal to that
  payload; a sequence of such messages produces the appends in arrival order, one for
  one, and leaves the session as it was.
\<close>

theorem media_forwarded_in_arrival_order:
  assumes "openAiWs st = OPEN"
    and "\<forall>(d, p) \<in> set dps. get_prop d ''event'' = Inr (Some (JStr ''media'')) \<and>
           (\<exists>m. get_prop d ''media'' = Inr (Some m) \<and> get_prop m ''payload'' = Inr (Some (JStr p)))"
  shows "run B st (map (\<lambda>(d, p). On_connection_message (Json_text d)) dps) =
     (st, map (\<lambda>(d, p). OpenAiWs_send
        (JObj [(''type'', JStr ''input_audio_buffer.append''), (''audio'', JStr p)])) dps)"
  using assms(2)
proof (induction dps)
  case Nil
  show ?case by simp
next
  case (Cons dp dps)
  obtain d p where dp: "dp = (d, p)" by (cases dp)
  from Cons.prems dp obtain m where
    ev: "get_prop d ''event'' = Inr (Some (JStr ''media''))"
    and m: "get_prop d ''media'' = Inr (Some m)"
    and pl: "get_prop m ''payload'' = Inr (Some (JStr p))"
    by auto
  have one: "step B st (On_connection_message (Json_text d)) =
     (st, [OpenAiWs_send (JObj [(''type'', JStr ''input_audio_buffer.append''), (''audio'', JStr p)])])"
    using media_ready [OF assms(1) ev m pl] by simp
  have rest: "run B st (map (\<lambda>(d, p). On_connection_message (Json_text d)) dps) =
     (st, map (\<lambda>(d, p). OpenAiWs_send
        (JObj [(''type'', JStr ''input_audio_buffer.append''), (''audio'', JStr p)])) dps)"
    using Cons by simp
  show ?case
    by (simp add: dp one rest del: step.simps)
qed

theorem media_forwarded_in_arrival_order_witness:
  "openAiWs \<lparr>streamSid = Some JNull, openAiWs = OPEN, connection = OPEN, timeouts = 0\<rparr> = OPEN \<and>
   run (\<lambda>v. Inl TypeError)
     \<lparr>streamSid = Some JNull, openAiWs = OPEN, connection = OPEN, timeouts = 0\<rparr>
     [On_connection_message (Json_text (JObj
        [(''event'', JStr ''media''), (''media'', JObj [(''payload'', JStr ''AAAA'')])])),
      On_connection_message (Json_text (JObj
        [(''event'', JStr ''media''), (''sequenceNumber'', JStr ''3''),
         (''media'', JObj [(''track'', JStr ''inbound''), (''payload'', JStr ''BBBB'')]),
         (''streamSid'', JStr ''SD123'')]))] =
   (\<lparr>streamSid = Some JNull, openAiWs = OPEN, connection = OPEN, timeouts = 0\<rparr>,
    [OpenAiWs_send (JObj [(''type'', JStr ''input_audio_buffer.append''), (''audio'', JStr ''AAAA'')]),
     OpenAiWs_send (JObj [(''type'', JStr ''input_audio_buffer.append''), (''audio'', JStr ''BBBB'')])])"
  using media_forwarded_in_arrival_order
      [of "\<lparr>streamSid = Some JNull, openAiWs = OPEN, connection = OPEN, timeouts = 0\<rparr>"
      "[(JObj [(''event'', JStr ''media''), (''media'', JObj [(''payload'', JStr ''AAAA'')])], ''AAAA''),
        (JObj [(''event'', JStr ''media''), (''sequenceNumber'', JStr ''3''),
           (''media'', JObj [(''track'', JStr ''inbound''), (''payload'', JStr ''BBBB'')]),
           (''streamSid'', JStr ''SD123'')], ''BBBB'')]"
      "\<lambda>v. Inl TypeError"]
  by simp

text \<open>
  Claim C3. While the AI socket is not OPEN, a telephony message whose \<open>event\<close> is
  \<open>media\<close> makes the handler do nothing: no call on the AI socket, and the session is
  exactly as before, so nothing is kept that a later event could send; the rest of the
  run is the run without the frame.
\<close>

theorem media_dropped_when_not_open:
  assumes "openAiWs st \<noteq> OPEN"
    and "get_prop d ''event'' = Inr (Some (JStr ''media''))"
  shows "step B st (On_connection_message (Json_text d)) = (st, []) \<and>
         run B st (On_connection_message (Json_text d) # evs) = run B st evs"
proof -
  have "step B st (On_connection_message (Json_text d)) = (st, [])"
    using media_not_ready [OF assms] by simp
  then show ?thesis
    by (simp del: step.simps)
qed

theorem media_dropped_when_not_open_witness:
  "openAiWs (fst media_stream) \<noteq> OPEN \<and>
   step (\<lambda>v. Inl TypeError) (fst media_stream)
     (On_connection_message (Json_text (JObj
        [(''event'', JStr ''media''), (''media'', JObj [(''payload'', JStr ''AAAA'')])]))) =
     (fst media_stream, []) \<and>
   run (\<lambda>v. Inl TypeError) (fst media_stream)
     [On_connection_message (Json_text (JObj
        [(''event'', JStr ''media''), (''media'', JObj [(''payload'', JStr ''AAAA'')])])),
      On_openAiWs_open, On_timeout] =
   run (\<lambda>v. Inl TypeError) (fst media_stream) [On_openAiWs_open, On_timeout]"
  using media_dropped_when_not_open
      [of "fst media_stream"
        "JObj [(''event'', JStr ''media''), (''media'', JObj [(''payload'', JStr ''AAAA'')])]"
        "\<lambda>v. Inl TypeError" "[On_openAiWs_open, On_timeout]"]
  by (simp add: media_stream_def)

section \<open>Runs\<close>

lemma fst_run_Cons: "fst (run B st (ev # evs)) = fst (run B (fst (step B st ev)) evs)"
  by (simp del: step.simps split: prod.splits)

lemma snd_run_Cons:
  "snd (run B st (ev # evs)) = snd (step B st ev) @ snd (run B (fst (step B st ev)) evs)"
  by (simp del: step.simps split: prod.splits)

section \<open>The stream identifier\<close>

lemma connection_on_message_streamSid:
  "\<not> is_start (On_connection_message message) \<Longrightarrow>
     streamSid (fst (connection_on_message st message)) = streamSid st"
  by (cases message)
    (auto simp: connection_on_message_def connection_on_message_try_def
      split: sum.splits if_splits)

lemma step_streamSid:
  "\<not> is_start ev \<Longrightarrow> streamSid (fst (step B st ev)) = streamSid st"
proof (cases ev)
  case (On_connection_message message)
  assume "\<not> is_start ev"
  with On_connection_message show ?thesis
    using connection_on_message_streamSid [of message st] by simp
next
  case (On_openAiWs_message data)
  then show ?thesis
    by (simp add: openAiWs_on_message_def split: prod.splits option.splits)
qed (simp_all add: connection_on_close_def openAiWs_on_open_def openAiWs_on_close_def
    openAiWs_on_error_def sendSessionUpdate_def)

lemma run_streamSid:
  "\<forall>ev \<in> set evs. \<not> is_start ev \<Longrightarrow> streamSid (fst (run B st evs)) = streamSid st"
proof (induction evs arbitrary: st)
  case Nil
  show ?case by simp
next
  case (Cons ev evs)
  have "streamSid (fst (step B st ev)) = streamSid st"
    using step_streamSid [of ev B st] Cons.prems by simp
  moreover have "streamSid (fst (run B (fst (step B st ev)) evs)) = streamSid (fst (step B st ev))"
    using Cons by simp
  ultimately show ?case
    by (simp only: fst_run_Cons)
qed

lemma start_assigns:
  assumes "get_prop d ''event'' = Inr (Some (JStr ''start''))"
    and "get_prop d ''start'' = Inr (Some s)"
    and "get_prop s ''streamSid'' = Inr sid"
  shows "connection_on_message st (Json_text d) =
     (st\<lparr>streamSid := sid\<rparr>, [Console_log ''El stream entrante ha comenzado''])"
  using assms by (simp add: connection_on_message_def connection_on_message_try_def)

text \<open>
  Claim C5, as stated (at most one value of \<open>streamSid\<close> is ever assigned, and it never
  changes once a \<open>start\<close> event has set it), fails: the \<open>start\<close> case assigns
  unconditionally, so a second \<open>start\<close> message replaces the value set by the first.
\<close>

theorem second_start_overwrites_streamSid:
  "streamSid (fst (run (\<lambda>v. Inl TypeError) (fst media_stream)
     [On_connection_message (Json_text (JObj
        [(''event'', JStr ''start''), (''start'', JObj [(''streamSid'', JStr ''SD123'')])]))])) =
     Some (JStr ''SD123'') \<and>
   streamSid (fst (run (\<lambda>v. Inl TypeError) (fst media_stream)
     [On_connection_message (Json_text (JObj
        [(''event'', JStr ''start''), (''start'', JObj [(''streamSid'', JStr ''SD123'')])])),
      On_connection_message (Json_text (JObj
        [(''event'', JStr ''start''), (''start'', JObj [(''streamSid'', JStr ''SD456'')])]))])) =
     Some (JStr ''SD456'')"
  by (simp add: media_stream_def connection_on_message_def connection_on_message_try_def)

text \<open>
  Claim C5, amended. \<open>streamSid\<close> is written only by telephony \<open>start\<close> messages: an
  event that is not one leaves it as it is, and a \<open>start\<close> message that carries
  \<open>start.streamSid\<close> sets it to the carried value, whatever it was before (the last
  write wins).
\<close>

theorem streamSid_written_only_by_start:
  "(\<not> is_start ev \<longrightarrow> streamSid (fst (step B st ev)) = streamSid st) \<and>
   (get_prop d ''event'' = Inr (Some (JStr ''start'')) \<and> get_prop d ''start'' = Inr (Some s) \<and>
    get_prop s ''streamSid'' = Inr sid \<longrightarrow>
      streamSid (fst (step B st (On_connection_message (Json_text d)))) = sid)"
  using step_streamSid [of ev B st] start_assigns [of d s sid st] by simp

theorem streamSid_written_only_by_start_witness:
  "\<not> is_start (On_openAiWs_message (Json_text (JObj
       [(''type'', JStr ''response.audio.delta''), (''delta'', JStr ''QUJD'')]))) \<and>
   streamSid (fst (step (\<lambda>v. Inl TypeError)
     \<lparr>streamSid = Some (JStr ''SD123''), openAiWs = OPEN, connection = OPEN, timeouts = 0\<rparr>
     (On_openAiWs_message (Json_text (JObj
       [(''type'', JStr ''response.audio.delta''), (''delta'', JStr ''QUJD'')]))))) =
     Some (JStr ''SD123'') \<and>
   get_prop (JObj [(''event'', JStr ''start''), (''start'', JObj [(''streamSid'', JStr ''SD456'')])])
     ''event'' = Inr (Some (JStr ''start'')) \<and>
   get_prop (JObj [(''event'', JStr ''start''), (''start'', JObj [(''streamSid'', JStr ''SD456'')])])
     ''start'' = Inr (Some (JObj [(''streamSid'', JStr ''SD456'')])) \<and>
   get_prop (JObj [(''streamSid'', JStr ''SD456'')]) ''streamSid'' = Inr (Some (JStr ''SD456'')) \<and>
   streamSid (fst (step (\<lambda>v. Inl TypeError)
     \<lparr>streamSid = Some (JStr ''SD123''), openAiWs = OPEN, connection = OPEN, timeouts = 0\<rparr>
     (On_connection_message (Json_text (JObj
       [(''event'', JStr ''start''), (''start'', JObj [(''streamSid'', JStr ''SD456'')])]))))) =
     Some (JStr ''SD456'')"
  using streamSid_written_only_by_start
    [of "On_openAiWs_message (Json_text (JObj
           [(''type'', JStr ''response.audio.delta''), (''delta'', JStr ''QUJD'')]))"
        "\<lambda>v. Inl TypeError"
        "\<lparr>streamSid = Some (JStr ''SD123''), openAiWs = OPEN, connection = OPEN, timeouts = 0\<rparr>"
        "JObj [(''event'', JStr ''start''), (''start'', JObj [(''streamSid'', JStr ''SD456'')])]"
        "JObj [(''streamSid'', JStr ''SD456'')]"
        "Some (JStr ''SD456'')"]
  by simp

section \<open>AI to telephony: audio deltas\<close>

lemma delta_not_logged:
  "\<not> array_includes LOG_EVENT_TYPES (Some (JStr ''response.audio.delta''))"
  by (simp add: array_includes_def LOG_EVENT_TYPES_def)

lemma audio_delta_string:
  assumes "get_prop r ''type'' = Inr (Some (JStr ''response.audio.delta''))"
    and "get_prop r ''delta'' = Inr (Some (JStr s))"
    and "s \<noteq> []"
  shows "openAiWs_on_message B st (Json_text r) =
     (st, [Connection_send (JSON_stringify
        [(''event'', Some (JStr ''media'')),
         (''streamSid'', streamSid st),
         (''media'', Some (JObj [(''payload'', JStr (toString_base64 (Buffer_from_base64 s)))]))])])"
  using assms
  by (simp add: openAiWs_on_message_def openAiWs_on_message_try_def delta_not_logged)

text \<open>
  Claim C2. An AI message of type \<open>response.audio.delta\<close> whose \<open>delta\<close> is the
  base64 text of a non-empty byte sequence makes the handler send exactly one frame to
  the telephony socket: its \<open>event\<close> is \<open>media\<close>, its \<open>streamSid\<close> is the session's
  current \<open>streamSid\<close>, and its \<open>media.payload\<close> is the \<open>delta\<close> text itself, since
  decoding and re-encoding base64 text gives the same text.
\<close>

theorem audio_delta_relayed:
  assumes "get_prop r ''type'' = Inr (Some (JStr ''response.audio.delta''))"
    and "get_prop r ''delta'' = Inr (Some (JStr (toString_base64 bytes)))"
    and "bytes \<noteq> []"
  shows "step B st (On_openAiWs_message (Json_text r)) =
     (st, [Connection_send (JSON_stringify
        [(''event'', Some (JStr ''media'')),
         (''streamSid'', streamSid st),
         (''media'', Some (JObj [(''payload'', JStr (toString_base64 bytes))]))])]) \<and>
     get_prop (JSON_stringify
        [(''event'', Some (JStr ''media'')),
         (''streamSid'', streamSid st),
         (''media'', Some (JObj [(''payload'', JStr (toString_base64 bytes))]))])
       ''streamSid'' = Inr (streamSid st)"
proof -
  have ne: "toString_base64 bytes \<noteq> []"
    using assms(3) by (simp add: toString_base64_eq_Nil)
  show ?thesis
    using audio_delta_string [OF assms(1,2) ne, of B st]
    by (cases "streamSid st") (simp_all add: Buffer_from_toString_base64)
qed

theorem audio_delta_relayed_witness:
  "get_prop (JObj [(''type'', JStr ''response.audio.delta''), (''delta'', JStr ''QUJD'')]) ''type'' =
     Inr (Some (JStr ''response.audio.delta'')) \<and>
   get_prop (JObj [(''type'', JStr ''response.audio.delta''), (''delta'', JStr ''QUJD'')]) ''delta'' =
     Inr (Some (JStr (toString_base64 [65, 66, 67]))) \<and>
   [65, 66, 67 :: 8 word] \<noteq> [] \<and>
   step (\<lambda>v. Inl TypeError)
     \<lparr>streamSid = Some (JStr ''SD123''), openAiWs = OPEN, connection = OPEN, timeouts = 0\<rparr>
     (On_openAiWs_message (Json_text (JObj
        [(''type'', JStr ''response.audio.delta''), (''delta'', JStr ''QUJD'')]))) =
   (\<lparr>streamSid = Some (JStr ''SD123''), openAiWs = OPEN, connection = OPEN, timeouts = 0\<rparr>,
    [Connection_send (JObj
       [(''event'', JStr ''media''), (''streamSid'', JStr ''SD123''),
        (''media'', JObj [(''payload'', JStr ''QUJD'')])])])"
proof -
  have enc: "toString_base64 [65, 66, 67] = ''QUJD''"
    by code_simp
  show ?thesis
    using audio_delta_relayed
      [of "JObj [(''type'', JStr ''response.audio.delta''), (''delta'', JStr ''QUJD'')]"
          "[65, 66, 67]" "\<lambda>v. Inl TypeError"
          "\<lparr>streamSid = Some (JStr ''SD123''), openAiWs = OPEN, connection = OPEN, timeouts = 0\<rparr>"]
    by (simp add: enc del: toString_base64.simps)
qed

text \<open>
  Claim C9. As long as no telephony \<open>start\<close> message has been handled, \<open>streamSid\<close>
  still has its initial value \<^verbatim>\<open>null\<close>; an AI \<open>response.audio.delta\<close> with a
  non-empty string \<open>delta\<close> arriving then is relayed at once, as exactly one frame whose
  \<open>streamSid\<close> member is \<^verbatim>\<open>null\<close>.
\<close>

theorem audio_delta_before_start_has_null_streamSid:
  assumes "\<forall>ev \<in> set evs. \<not> is_start ev"
    and "get_prop r ''type'' = Inr (Some (JStr ''response.audio.delta''))"
    and "get_prop r ''delta'' = Inr (Some (JStr s))"
    and "s \<noteq> []"
  shows "snd (step B (fst (run B (fst media_stream) evs)) (On_openAiWs_message (Json_text r))) =
     [Connection_send (JObj
        [(''event'', JStr ''media''),
         (''streamSid'', JNull),
         (''media'', JObj [(''payload'', JStr (toString_base64 (Buffer_from_base64 s)))])])]"
proof -
  have "streamSid (fst (run B (fst media_stream) evs)) = Some JNull"
    using run_streamSid [OF assms(1), of B "fst media_stream"] by (simp add: media_stream_def)
  then show ?thesis
    using audio_delta_string [OF assms(2,3,4), of B "fst (run B (fst media_stream) evs)"]
    by simp
qed

theorem audio_delta_before_start_has_null_streamSid_witness:
  "snd (step (\<lambda>v. Inl TypeError)
     (fst (run (\<lambda>v. Inl TypeError) (fst media_stream)
        [On_openAiWs_open, On_timeout,
         On_connection_message (Json_text (JObj
           [(''event'', JStr ''media''), (''media'', JObj [(''payload'', JStr ''AAAA'')])]))]))
     (On_openAiWs_message (Json_text (JObj
        [(''type'', JStr ''response.audio.delta''), (''delta'', JStr ''QUJD'')])))) =
   [Connection_send (JObj
      [(''event'', JStr ''media''), (''streamSid'', JNull),
       (''media'', JObj [(''payload'', JStr ''QUJD'')])])]"
proof -
  have rt: "toString_base64 (Buffer_from_base64 ''QUJD'') = ''QUJD''"
    by code_simp
  show ?thesis
    using audio_delta_before_start_has_null_streamSid
      [of "[On_openAiWs_open, On_timeout,
            On_connection_message (Json_text (JObj
              [(''event'', JStr ''media''), (''media'', JObj [(''payload'', JStr ''AAAA'')])]))]"
          "JObj [(''type'', JStr ''response.audio.delta''), (''delta'', JStr ''QUJD'')]"
          "''QUJD''" "\<lambda>v. Inl TypeError"]
    by (simp only: rt) simp
qed

section \<open>Messages that cannot be decoded\<close>

lemma connection_on_message_throws:
  "connection_on_message_try st message = Inl e \<Longrightarrow>
     connection_on_message st message = (st, [Console_error ''Error al analizar el mensaje:''])"
  by (simp add: connection_on_message_def)

lemma strict_eq_iff: "strict_eq v lit \<longleftrightarrow> v = Some (JStr lit)"
  by (cases "(v, lit)" rule: strict_eq.cases) auto

lemma openAiWs_on_message_throws:
  assumes "snd (openAiWs_on_message_try B st data) = Some e"
  shows "openAiWs_on_message B st data =
     (st, [Console_error ''Error al procesar el mensaje de OpenAI:''])"
proof -
  have "fst (openAiWs_on_message_try B st data) = []"
    using assms
    by (auto simp: openAiWs_on_message_try_def Let_def strict_eq_iff delta_not_logged
        split: sum.splits if_splits)
  with assms show ?thesis
    by (cases "openAiWs_on_message_try B st data") (simp add: openAiWs_on_message_def)
qed

text \<open>
  Claim C7, as stated (every malformed message is logged and discarded, leaving the
  session unchanged), fails for a message that parses but has an unexpected shape on
  which no read throws: the handlers check no shape. A \<open>start\<close> message whose
  \<open>start\<close> object has no \<open>streamSid\<close> is not discarded: nothing is logged as an error
  and \<open>streamSid\<close> becomes \<^verbatim>\<open>undefined\<close>. A \<open>media\<close> message whose \<open>media\<close> object
  has no \<open>payload\<close> is forwarded to the AI socket, without an \<open>audio\<close> member.
\<close>

theorem unexpected_shape_not_discarded:
  "step (\<lambda>v. Inl TypeError)
     \<lparr>streamSid = Some (JStr ''SD123''), openAiWs = OPEN, connection = OPEN, timeouts = 0\<rparr>
     (On_connection_message (Json_text (JObj [(''event'', JStr ''start''), (''start'', JObj [])]))) =
   (\<lparr>streamSid = None, openAiWs = OPEN, connection = OPEN, timeouts = 0\<rparr>,
    [Console_log ''El stream entrante ha comenzado'']) \<and>
   step (\<lambda>v. Inl TypeError)
     \<lparr>streamSid = Some (JStr ''SD123''), openAiWs = OPEN, connection = OPEN, timeouts = 0\<rparr>
     (On_connection_message (Json_text (JObj [(''event'', JStr ''media''), (''media'', JObj [])]))) =
   (\<lparr>streamSid = Some (JStr ''SD123''), openAiWs = OPEN, connection = OPEN, timeouts = 0\<rparr>,
    [OpenAiWs_send (JObj [(''type'', JStr ''input_audio_buffer.append'')])])"
  by (simp add: connection_on_message_def connection_on_message_try_def)

text \<open>
  Claim C7, amended. A message on either socket on which the handler's \<^verbatim>\<open>try\<close>
  throws is handled by the \<^verbatim>\<open>catch\<close>, which logs one error and discards that single
  message: no call on a socket, the session (\<open>streamSid\<close>, both connections, pending
  timers) is unchanged, and the events that follow are handled exactly as if the message
  had not arrived. The \<^verbatim>\<open>try\<close> throws on text that is not JSON, on the JSON text
  \<^verbatim>\<open>null\<close>, on a \<open>media\<close> message read while the AI socket is OPEN whose \<open>media\<close>
  member is missing or \<^verbatim>\<open>null\<close>, on a \<open>start\<close> message whose \<open>start\<close> member is
  missing or \<^verbatim>\<open>null\<close>, and on an audio delta whose \<open>delta\<close> makes
  \<^verbatim>\<open>Buffer.from\<close> throw.
\<close>

theorem throwing_message_logged_and_discarded:
  "(connection_on_message_try st message = Inl e \<longrightarrow>
      step B st (On_connection_message message) =
        (st, [Console_error ''Error al analizar el mensaje:'']) \<and>
      run B st (On_connection_message message # evs) =
        (fst (run B st evs), Console_error ''Error al analizar el mensaje:'' # snd (run B st evs))) \<and>
   (snd (openAiWs_on_message_try B st data) = Some e' \<longrightarrow>
      step B st (On_openAiWs_message data) =
        (st, [Console_error ''Error al procesar el mensaje de OpenAI:'']) \<and>
      run B st (On_openAiWs_message data # evs) =
        (fst (run B st evs),
         Console_error ''Error al procesar el mensaje de OpenAI:'' # snd (run B st evs))) \<and>
   connection_on_message_try st (Not_json s) = Inl SyntaxError \<and>
   snd (openAiWs_on_message_try B st (Not_json s)) = Some SyntaxError \<and>
   connection_on_message_try st (Json_text JNull) = Inl TypeError \<and>
   snd (openAiWs_on_message_try B st (Json_text JNull)) = Some TypeError \<and>
   (openAiWs st = OPEN \<and> get_prop d ''event'' = Inr (Some (JStr ''media'')) \<and>
    (get_prop d ''media'' = Inr None \<or> get_prop d ''media'' = Inr (Some JNull)) \<longrightarrow>
      connection_on_message_try st (Json_text d) = Inl TypeError) \<and>
   (get_prop d ''event'' = Inr (Some (JStr ''start'')) \<and>
    (get_prop d ''start'' = Inr None \<or> get_prop d ''start'' = Inr (Some JNull)) \<longrightarrow>
      connection_on_message_try st (Json_text d) = Inl TypeError) \<and>
   (get_prop r ''type'' = Inr (Some (JStr ''response.audio.delta'')) \<and>
    get_prop r ''delta'' = Inr (Some v) \<and> truthy (Some v) \<and>
    Buffer_from_toString B (Some v) = Inl TypeError \<longrightarrow>
      snd (openAiWs_on_message_try B st (Json_text r)) = Some TypeError)"
proof -
  have t: "step B st (On_connection_message message) =
        (st, [Console_error ''Error al analizar el mensaje:''])"
    if "connection_on_message_try st message = Inl e"
    using connection_on_message_throws [OF that] by simp
  have a: "step B st (On_openAiWs_message data) =
        (st, [Console_error ''Error al procesar el mensaje de OpenAI:''])"
    if "snd (openAiWs_on_message_try B st data) = Some e'"
    using openAiWs_on_message_throws [OF that] by simp
  have tr: "run B st (On_connection_message message # evs) =
        (fst (run B st evs), Console_error ''Error al analizar el mensaje:'' # snd (run B st evs))"
    if "connection_on_message_try st message = Inl e"
    using t [OF that] by (simp del: step.simps split: prod.splits)
  have ar: "run B st (On_openAiWs_message data # evs) =
        (fst (run B st evs),
         Console_error ''Error al procesar el mensaje de OpenAI:'' # snd (run B st evs))"
    if "snd (openAiWs_on_message_try B st data) = Some e'"
    using a [OF that] by (simp del: step.simps split: prod.splits)
  have n: "connection_on_message_try st (Not_json s) = Inl SyntaxError"
    "snd (openAiWs_on_message_try B st (Not_json s)) = Some SyntaxError"
    "connection_on_message_try st (Json_text JNull) = Inl TypeError"
    "snd (openAiWs_on_message_try B st (Json_text JNull)) = Some TypeError"
    by (simp_all add: connection_on_message_try_def openAiWs_on_message_try_def)
  have m: "connection_on_message_try st (Json_text d) = Inl TypeError"
    if "openAiWs st = OPEN" "get_prop d ''event'' = Inr (Some (JStr ''media''))"
      "get_prop d ''media'' = Inr None \<or> get_prop d ''media'' = Inr (Some JNull)"
    using that by (auto simp: connection_on_message_try_def)
  have s: "connection_on_message_try st (Json_text d) = Inl TypeError"
    if "get_prop d ''event'' = Inr (Some (JStr ''start''))"
      "get_prop d ''start'' = Inr None \<or> get_prop d ''start'' = Inr (Some JNull)"
    using that by (auto simp: connection_on_message_try_def)
  have b: "snd (openAiWs_on_message_try B st (Json_text r)) = Some TypeError"
    if "get_prop r ''type'' = Inr (Some (JStr ''response.audio.delta''))"
      "get_prop r ''delta'' = Inr (Some v)" "truthy (Some v)"
      "Buffer_from_toString B (Some v) = Inl TypeError"
    using that by (simp add: openAiWs_on_message_try_def Let_def)
  show ?thesis
    using t a tr ar n m s b by blast
qed

theorem throwing_message_logged_and_discarded_witness:
  "connection_on_message_try (fst media_stream)
     (Json_text (JObj [(''event'', JStr ''start'')])) = Inl TypeError \<and>
   step (\<lambda>v. Inl TypeError) (fst media_stream)
     (On_connection_message (Json_text (JObj [(''event'', JStr ''start'')]))) =
     (fst media_stream, [Console_error ''Error al analizar el mensaje:'']) \<and>
   run (\<lambda>v. Inl TypeError) (fst media_stream)
     [On_connection_message (Json_text (JObj [(''event'', JStr ''start'')])),
      On_connection_message (Json_text (JObj
         [(''event'', JStr ''start''), (''start'', JObj [(''streamSid'', JStr ''SD123'')])]))] =
     (\<lparr>streamSid = Some (JStr ''SD123''), openAiWs = CONNECTING, connection = OPEN, timeouts = 0\<rparr>,
      [Console_error ''Error al analizar el mensaje:'',
       Console_log ''El stream entrante ha comenzado'']) \<and>
   snd (openAiWs_on_message_try (\<lambda>v. Inl TypeError) (fst media_stream)
     (Json_text (JObj [(''type'', JStr ''response.audio.delta''), (''delta'', JNum 5)]))) =
     Some TypeError \<and>
   step (\<lambda>v. Inl TypeError) (fst media_stream)
     (On_openAiWs_message (Json_text (JObj
        [(''type'', JStr ''response.audio.delta''), (''delta'', JNum 5)]))) =
     (fst media_stream, [Console_error ''Error al procesar el mensaje de OpenAI:'']) \<and>
   step (\<lambda>v. Inl TypeError) (fst media_stream) (On_openAiWs_message (Not_json ''<html>'')) =
     (fst media_stream, [Console_error ''Error al procesar el mensaje de OpenAI:''])"
proof -
  have h1: "connection_on_message_try (fst media_stream)
     (Json_text (JObj [(''event'', JStr ''start'')])) = Inl TypeError"
    by (simp add: connection_on_message_try_def)
  have h2: "snd (openAiWs_on_message_try (\<lambda>v. Inl TypeError) (fst media_stream)
     (Json_text (JObj [(''type'', JStr ''response.audio.delta''), (''delta'', JNum 5)]))) =
     Some TypeError"
    by (simp add: openAiWs_on_message_try_def delta_not_logged)
  have h3: "snd (openAiWs_on_message_try (\<lambda>v. Inl TypeError) (fst media_stream)
     (Not_json ''<html>'')) = Some SyntaxError"
    by (simp add: openAiWs_on_message_try_def)
  have r: "run (\<lambda>v. Inl TypeError) (fst media_stream)
     [On_connection_message (Json_text (JObj
         [(''event'', JStr ''start''), (''start'', JObj [(''streamSid'', JStr ''SD123'')])]))] =
     (\<lparr>streamSid = Some (JStr ''SD123''), openAiWs = CONNECTING, connection = OPEN, timeouts = 0\<rparr>,
      [Console_log ''El stream entrante ha comenzado''])"
    by (simp add: media_stream_def connection_on_message_def connection_on_message_try_def)
  show ?thesis
    using throwing_message_logged_and_discarded
      [of "fst media_stream" "Json_text (JObj [(''event'', JStr ''start'')])" TypeError
        "\<lambda>v. Inl TypeError"
        "[On_connection_message (Json_text (JObj
            [(''event'', JStr ''start''), (''start'', JObj [(''streamSid'', JStr ''SD123'')])]))]"
        "Json_text (JObj [(''type'', JStr ''response.audio.delta''), (''delta'', JNum 5)])"
        TypeError]
      throwing_message_logged_and_discarded
      [of "fst media_stream" "Json_text (JObj [(''event'', JStr ''start'')])" TypeError
        "\<lambda>v. Inl TypeError" "[]" "Not_json ''<html>''" SyntaxError]
      h1 h2 h3 r
    by (simp del: step.simps run.simps)
qed

section \<open>Session configuration\<close>

lemma append_is_not_sessionUpdate:
  "JSON_stringify [(''type'', Some (JStr ''input_audio_buffer.append'')), (''audio'', payload)]
     \<noteq> sessionUpdate"
  by (simp add: sessionUpdate_def)

lemma connection_on_message_session_updates:
  "count_list (snd (connection_on_message st message)) (OpenAiWs_send sessionUpdate) = 0 \<and>
   timeouts (fst (connection_on_message st message)) = timeouts st"
  by (auto simp: connection_on_message_def connection_on_message_try_def
      append_is_not_sessionUpdate simp del: JSON_stringify.simps split: sum.splits)

lemma openAiWs_on_message_session_updates:
  "count_list (snd (openAiWs_on_message B st data)) (OpenAiWs_send sessionUpdate) = 0 \<and>
   timeouts (fst (openAiWs_on_message B st data)) = timeouts st"
  by (auto simp: openAiWs_on_message_def openAiWs_on_message_try_def Let_def
      simp del: JSON_stringify.simps split: sum.splits prod.splits option.splits if_splits)

lemma step_session_updates:
  "count_list (snd (step B st ev)) (OpenAiWs_send sessionUpdate) + timeouts (fst (step B st ev)) =
     timeouts st + (if ev = On_openAiWs_open then 1 else 0)"
proof (cases ev)
  case (On_connection_message message)
  then show ?thesis using connection_on_message_session_updates [of st message] by simp
next
  case (On_openAiWs_message data)
  then show ?thesis using openAiWs_on_message_session_updates [of B st data] by simp
qed (simp_all add: connection_on_close_def openAiWs_on_open_def openAiWs_on_close_def
    openAiWs_on_error_def sendSessionUpdate_def)

lemma count_list_append: "count_list (xs @ ys) x = count_list xs x + count_list ys x"
  by (induction xs) simp_all

lemma run_session_updates:
  "count_list (snd (run B st evs)) (OpenAiWs_send sessionUpdate) + timeouts (fst (run B st evs)) =
     timeouts st + count_list evs On_openAiWs_open"
proof (induction evs arbitrary: st)
  case Nil
  show ?case by simp
next
  case (Cons ev evs)
  have "count_list (snd (run B st (ev # evs))) (OpenAiWs_send sessionUpdate)
          + timeouts (fst (run B st (ev # evs))) =
        count_list (snd (step B st ev)) (OpenAiWs_send sessionUpdate)
          + (count_list (snd (run B (fst (step B st ev)) evs)) (OpenAiWs_send sessionUpdate)
             + timeouts (fst (run B (fst (step B st ev)) evs)))"
    by (simp only: fst_run_Cons snd_run_Cons count_list_append add.assoc)
  also have "\<dots> = count_list (snd (step B st ev)) (OpenAiWs_send sessionUpdate)
          + (timeouts (fst (step B st ev)) + count_list evs On_openAiWs_open)"
    by (simp only: Cons.IH)
  also have "\<dots> = timeouts st + (if ev = On_openAiWs_open then 1 else 0)
          + count_list evs On_openAiWs_open"
    using step_session_updates [of B st ev] by simp
  also have "\<dots> = timeouts st + count_list (ev # evs) On_openAiWs_open"
    by simp
  finally show ?case .
qed

text \<open>
  Claim C8. The \<^verbatim>\<open>open\<close> handler of the AI socket sends nothing itself and schedules
  exactly one timer; when the timer fires, exactly one message is sent to the AI socket,
  the session configuration. Over any run, the configuration messages sent plus the
  timers still pending number the \<^verbatim>\<open>open\<close> events plus the timers pending at the
  start: one configuration message per open acknowledgment. The message has turn
  detection \<open>server_vad\<close>, input and output audio format \<open>g711_ulaw\<close>, modalities text
  and audio, and temperature 0.8.
\<close>

theorem session_update_sent_once_after_open:
  "step B st On_openAiWs_open =
     (st\<lparr>openAiWs := OPEN, timeouts := Suc (timeouts st)\<rparr>,
      [Console_log ''Conectado a la API Realtime de OpenAI'']) \<and>
   run B st [On_openAiWs_open, On_timeout] =
     (st\<lparr>openAiWs := OPEN\<rparr>,
      [Console_log ''Conectado a la API Realtime de OpenAI'',
       Console_log (''Enviando actualizaci'' @ [CHR 0xC3, CHR 0xB3] @ ''n de sesi''
                    @ [CHR 0xC3, CHR 0xB3] @ ''n:''),
       OpenAiWs_send sessionUpdate]) \<and>
   count_list (snd (run B st evs)) (OpenAiWs_send sessionUpdate) + timeouts (fst (run B st evs)) =
     timeouts st + count_list evs On_openAiWs_open \<and>
   sessionUpdate =
     JObj [(''type'', JStr ''session.update''),
           (''session'', JObj
              [(''turn_detection'', JObj [(''type'', JStr ''server_vad'')]),
               (''input_audio_format'', JStr ''g711_ulaw''),
               (''output_audio_format'', JStr ''g711_ulaw''),
               (''voice'', JStr ''alloy''),
               (''instructions'', JStr SYSTEM_MESSAGE),
               (''modalities'', JArr [JStr ''text'', JStr ''audio'']),
               (''temperature'', JNum (4 / 5))])]"
proof -
  have "sessionUpdate =
     JObj [(''type'', JStr ''session.update''),
           (''session'', JObj
              [(''turn_detection'', JObj [(''type'', JStr ''server_vad'')]),
               (''input_audio_format'', JStr ''g711_ulaw''),
               (''output_audio_format'', JStr ''g711_ulaw''),
               (''voice'', JStr ''alloy''),
               (''instructions'', JStr SYSTEM_MESSAGE),
               (''modalities'', JArr [JStr ''text'', JStr ''audio'']),
               (''temperature'', JNum (4 / 5))])]"
    by (simp add: sessionUpdate_def VOICE_def)
  moreover have "run B st [On_openAiWs_open, On_timeout] =
     (st\<lparr>openAiWs := OPEN\<rparr>,
      [Console_log ''Conectado a la API Realtime de OpenAI'',
       Console_log (''Enviando actualizaci'' @ [CHR 0xC3, CHR 0xB3] @ ''n de sesi''
                    @ [CHR 0xC3, CHR 0xB3] @ ''n:''),
       OpenAiWs_send sessionUpdate])"
    by (simp add: openAiWs_on_open_def sendSessionUpdate_def)
  moreover have "step B st On_openAiWs_open =
     (st\<lparr>openAiWs := OPEN, timeouts := Suc (timeouts st)\<rparr>,
      [Console_log ''Conectado a la API Realtime de OpenAI''])"
    by (simp add: openAiWs_on_open_def)
  ultimately show ?thesis
    using run_session_updates [of B st evs] by (simp only: simp_thms)
qed

theorem session_update_sent_once_after_open_witness:
  "count_list (snd (run (\<lambda>v. Inl TypeError) (fst media_stream)
      [On_connection_message (Json_text (JObj
         [(''event'', JStr ''start''), (''start'', JObj [(''streamSid'', JStr ''SD123'')])])),
       On_openAiWs_open, On_timeout,
       On_connection_message (Json_text (JObj
         [(''event'', JStr ''media''), (''media'', JObj [(''payload'', JStr ''AAAA'')])])),
       On_timeout]))
     (OpenAiWs_send sessionUpdate) = 1"
proof -
  have "timeouts (fst (run (\<lambda>v. Inl TypeError) (fst media_stream)
      [On_connection_message (Json_text (JObj
         [(''event'', JStr ''start''), (''start'', JObj [(''streamSid'', JStr ''SD123'')])])),
       On_openAiWs_open, On_timeout,
       On_connection_message (Json_text (JObj
         [(''event'', JStr ''media''), (''media'', JObj [(''payload'', JStr ''AAAA'')])])),
       On_timeout])) = 0"
    by (simp add: media_stream_def connection_on_message_def connection_on_message_try_def
        openAiWs_on_open_def sendSessionUpdate_def)
  then show ?thesis
    using session_update_sent_once_after_open
      [of "\<lambda>v. Inl TypeError" "fst media_stream"
        "[On_connection_message (Json_text (JObj
            [(''event'', JStr ''start''), (''start'', JObj [(''streamSid'', JStr ''SD123'')])])),
          On_openAiWs_open, On_timeout,
          On_connection_message (Json_text (JObj
            [(''event'', JStr ''media''), (''media'', JObj [(''payload'', JStr ''AAAA'')])])),
          On_timeout]"]
    by (simp add: media_stream_def del: run.simps)
qed

section \<open>Teardown\<close>

lemma connection_on_message_not_open:
  assumes "openAiWs st \<noteq> OPEN"
  shows "openAiWs (fst (connection_on_message st message)) = openAiWs st \<and>
         OpenAiWs_close \<notin> set (snd (connection_on_message st message)) \<and>
         OpenAiWs_send x \<notin> set (snd (connection_on_message st message))"
  using assms
  by (auto simp: connection_on_message_def connection_on_message_try_def
      split: sum.splits if_splits)

lemma openAiWs_on_message_no_ai_call:
  "fst (openAiWs_on_message B st data) = st \<and>
   OpenAiWs_close \<notin> set (snd (openAiWs_on_message B st data)) \<and>
   OpenAiWs_send x \<notin> set (snd (openAiWs_on_message B st data))"
  by (auto simp: openAiWs_on_message_def openAiWs_on_message_try_def Let_def
      simp del: JSON_stringify.simps split: sum.splits prod.splits option.splits if_splits)

lemma step_not_open:
  assumes "openAiWs st \<noteq> OPEN" and "ev \<noteq> On_openAiWs_open"
  shows "openAiWs (fst (step B st ev)) \<noteq> OPEN \<and>
         OpenAiWs_close \<notin> set (snd (step B st ev)) \<and>
         (OpenAiWs_send x \<in> set (snd (step B st ev)) \<longrightarrow> x = sessionUpdate)"
proof (cases ev)
  case (On_connection_message message)
  then show ?thesis
    using connection_on_message_not_open [OF assms(1), of message x] assms(1) by simp
next
  case (On_openAiWs_message data)
  then show ?thesis
    using openAiWs_on_message_no_ai_call [of B st data x] assms(1) by simp
qed (use assms in \<open>simp_all add: connection_on_close_def openAiWs_on_close_def
    openAiWs_on_error_def sendSessionUpdate_def\<close>)

lemma run_not_open:
  assumes "openAiWs st \<noteq> OPEN" and "On_openAiWs_open \<notin> set evs"
  shows "openAiWs (fst (run B st evs)) \<noteq> OPEN \<and>
         OpenAiWs_close \<notin> set (snd (run B st evs)) \<and>
         (OpenAiWs_send x \<in> set (snd (run B st evs)) \<longrightarrow> x = sessionUpdate)"
  using assms
proof (induction evs arbitrary: st)
  case Nil
  then show ?case by simp
next
  case (Cons ev evs)
  have ev: "ev \<noteq> On_openAiWs_open" and evs: "On_openAiWs_open \<notin> set evs"
    using Cons.prems(2) by auto
  note s = step_not_open [OF Cons.prems(1) ev, of B x]
  from s have "openAiWs (fst (step B st ev)) \<noteq> OPEN" by simp
  note r = Cons.IH [OF this evs]
  show ?case
    using s r by (simp only: fst_run_Cons snd_run_Cons set_append Un_iff) blast
qed

text \<open>
  Claim C4, as stated (closing either connection triggers closing of the other, and no
  connection stays open after teardown), fails: the \<^verbatim>\<open>close\<close> handler of the AI
  socket only logs, so after the AI socket has closed the telephony socket is still
  open; and a telephony close while the AI socket is still connecting leaves the AI
  socket to open afterwards.
\<close>

theorem ai_close_leaves_telephony_open:
  "connection (fst (run (\<lambda>v. Inl TypeError) (fst media_stream)
      [On_openAiWs_open, On_timeout, On_openAiWs_close])) = OPEN \<and>
   openAiWs (fst (run (\<lambda>v. Inl TypeError) (fst media_stream)
      [On_openAiWs_open, On_timeout, On_openAiWs_close])) = CLOSED \<and>
   snd (step (\<lambda>v. Inl TypeError)
      (fst (run (\<lambda>v. Inl TypeError) (fst media_stream) [On_openAiWs_open, On_timeout]))
      On_openAiWs_close) = [Console_log ''Desconectado de la API Realtime de OpenAI''] \<and>
   connection (fst (run (\<lambda>v. Inl TypeError) (fst media_stream)
      [On_connection_close, On_openAiWs_open])) = CLOSED \<and>
   openAiWs (fst (run (\<lambda>v. Inl TypeError) (fst media_stream)
      [On_connection_close, On_openAiWs_open])) = OPEN"
  by (simp add: media_stream_def openAiWs_on_open_def sendSessionUpdate_def openAiWs_on_close_def
      connection_on_close_def)

text \<open>
  Claim C4, amended. Closing the telephony connection while the AI connection is OPEN
  closes the AI connection: one \<^verbatim>\<open>close\<close> call, after which neither connection is
  open. Closing of the AI connection, or an error on it, does not close the telephony
  connection: the handler only logs and the telephony connection stays as it was.
\<close>

theorem telephony_close_closes_open_ai_only:
  "(openAiWs st = OPEN \<longrightarrow>
      step B st On_connection_close =
        (st\<lparr>connection := CLOSED, openAiWs := CLOSING\<rparr>,
         [OpenAiWs_close, Console_log ''Cliente desconectado.''])) \<and>
   snd (step B st On_openAiWs_close) = [Console_log ''Desconectado de la API Realtime de OpenAI''] \<and>
   connection (fst (step B st On_openAiWs_close)) = connection st \<and>
   snd (step B st On_openAiWs_error) = [Console_error ''Error en el WebSocket de OpenAI:''] \<and>
   connection (fst (step B st On_openAiWs_error)) = connection st"
  by (simp add: connection_on_close_def openAiWs_on_close_def openAiWs_on_error_def)

theorem telephony_close_closes_open_ai_only_witness:
  "openAiWs \<lparr>streamSid = Some (JStr ''SD123''), openAiWs = OPEN, connection = OPEN, timeouts = 0\<rparr> = OPEN \<and>
   step (\<lambda>v. Inl TypeError) \<lparr>streamSid = Some (JStr ''SD123''), openAiWs = OPEN, connection = OPEN, timeouts = 0\<rparr> On_connection_close =
     (\<lparr>streamSid = Some (JStr ''SD123''), openAiWs = CLOSING, connection = CLOSED, timeouts = 0\<rparr>,
      [OpenAiWs_close, Console_log ''Cliente desconectado.'']) \<and>
   connection (fst (step (\<lambda>v. Inl TypeError) \<lparr>streamSid = Some (JStr ''SD123''), openAiWs = OPEN, connection = OPEN, timeouts = 0\<rparr> On_openAiWs_close)) = OPEN"
  using telephony_close_closes_open_ai_only
    [of "\<lparr>streamSid = Some (JStr ''SD123''), openAiWs = OPEN, connection = OPEN, timeouts = 0\<rparr>" "\<lambda>v. Inl TypeError"]
  by simp

text \<open>
  Claim C6, as stated (after the telephony close no further message is sent on either
  connection), fails: no handler checks that the session has been torn down. After the
  close, with the AI connection closed by it, an AI audio delta still makes the handler
  send a frame on the telephony connection, and a timer scheduled by the AI
  \<^verbatim>\<open>open\<close> before the close still sends the session configuration. When the
  telephony connection closes while the AI connection is still connecting, the AI
  connection opens afterwards and the session configuration is sent on it, open.
\<close>

theorem sends_after_telephony_close:
  "connection (fst (run (\<lambda>v. Inl TypeError) (fst media_stream)
      [On_connection_message (Json_text (JObj
         [(''event'', JStr ''start''), (''start'', JObj [(''streamSid'', JStr ''SD123'')])])),
       On_openAiWs_open, On_timeout, On_connection_close])) = CLOSED \<and>
   snd (step (\<lambda>v. Inl TypeError)
      (fst (run (\<lambda>v. Inl TypeError) (fst media_stream)
         [On_connection_message (Json_text (JObj
         [(''event'', JStr ''start''), (''start'', JObj [(''streamSid'', JStr ''SD123'')])])),
          On_openAiWs_open, On_timeout]))
      On_connection_close) = [OpenAiWs_close, Console_log ''Cliente desconectado.''] \<and>
   snd (step (\<lambda>v. Inl TypeError)
      (fst (run (\<lambda>v. Inl TypeError) (fst media_stream)
         [On_connection_message (Json_text (JObj
         [(''event'', JStr ''start''), (''start'', JObj [(''streamSid'', JStr ''SD123'')])])),
          On_openAiWs_open, On_timeout, On_connection_close]))
      (On_openAiWs_message (Json_text (JObj
         [(''type'', JStr ''response.audio.delta''), (''delta'', JStr ''QUJD'')])))) =
     [Connection_send (JObj
        [(''event'', JStr ''media''), (''streamSid'', JStr ''SD123''),
         (''media'', JObj [(''payload'', JStr ''QUJD'')])])] \<and>
   snd (step (\<lambda>v. Inl TypeError)
      (fst (run (\<lambda>v. Inl TypeError) (fst media_stream) [On_openAiWs_open, On_connection_close]))
      On_timeout) =
     [Console_log (''Enviando actualizaci'' @ [CHR 0xC3, CHR 0xB3] @ ''n de sesi''
                 @ [CHR 0xC3, CHR 0xB3] @ ''n:''),
      OpenAiWs_send sessionUpdate] \<and>
   openAiWs (fst (run (\<lambda>v. Inl TypeError) (fst media_stream)
      [On_connection_close, On_openAiWs_open])) = OPEN \<and>
   snd (step (\<lambda>v. Inl TypeError)
      (fst (run (\<lambda>v. Inl TypeError) (fst media_stream) [On_connection_close, On_openAiWs_open]))
      On_timeout) =
     [Console_log (''Enviando actualizaci'' @ [CHR 0xC3, CHR 0xB3] @ ''n de sesi''
                 @ [CHR 0xC3, CHR 0xB3] @ ''n:''),
      OpenAiWs_send sessionUpdate]"
proof -
  have rt: "toString_base64 (Buffer_from_base64 ''QUJD'') = ''QUJD''"
    by code_simp
  show ?thesis
    by (simp add: media_stream_def connection_on_message_def connection_on_message_try_def
        openAiWs_on_open_def connection_on_close_def openAiWs_on_message_def
        openAiWs_on_message_try_def sendSessionUpdate_def delta_not_logged rt
        del: toString_base64.simps)
qed

text \<open>
  Claim C6, amended. When the telephony connection closes while the AI connection is
  OPEN, the close handler closes the AI connection, sending nothing, and that is the
  only \<^verbatim>\<open>close\<close> call of the rest of the session: exactly one. After this teardown,
  as long as the AI connection does not open anew, no telephony audio is forwarded to
  it: the only message still sent on the AI connection is the session configuration of
  a timer that was pending.
\<close>

theorem telephony_close_closes_ai_once:
  assumes "openAiWs st = OPEN" and "On_openAiWs_open \<notin> set evs"
  shows "step B st On_connection_close =
           (st\<lparr>connection := CLOSED, openAiWs := CLOSING\<rparr>,
            [OpenAiWs_close, Console_log ''Cliente desconectado.'']) \<and>
         count_list (snd (run B st (On_connection_close # evs))) OpenAiWs_close = 1 \<and>
         (OpenAiWs_send x \<in> set (snd (run B (fst (step B st On_connection_close)) evs)) \<longrightarrow>
            x = sessionUpdate)"
proof -
  have c: "step B st On_connection_close =
           (st\<lparr>connection := CLOSED, openAiWs := CLOSING\<rparr>,
            [OpenAiWs_close, Console_log ''Cliente desconectado.''])"
    using assms(1) by (simp add: connection_on_close_def)
  have n: "openAiWs (st\<lparr>connection := CLOSED, openAiWs := CLOSING\<rparr>) \<noteq> OPEN"
    by simp
  note r = run_not_open [OF n assms(2), of B x]
  have "count_list (snd (run B (st\<lparr>connection := CLOSED, openAiWs := CLOSING\<rparr>) evs))
          OpenAiWs_close = 0"
    using r by (simp add: count_list_0_iff)
  then have "count_list (snd (run B st (On_connection_close # evs))) OpenAiWs_close = 1"
    by (simp only: snd_run_Cons c fst_conv snd_conv count_list_append) simp
  then show ?thesis
    using c r by simp
qed

theorem telephony_close_closes_ai_once_witness:
  "openAiWs \<lparr>streamSid = Some (JStr ''SD123''), openAiWs = OPEN, connection = OPEN, timeouts = 1\<rparr> = OPEN \<and>
   count_list (snd (run (\<lambda>v. Inl TypeError) \<lparr>streamSid = Some (JStr ''SD123''), openAiWs = OPEN, connection = OPEN, timeouts = 1\<rparr>
      [On_connection_close,
       On_connection_message (Json_text (JObj
         [(''event'', JStr ''media''), (''media'', JObj [(''payload'', JStr ''AAAA'')])])),
       On_timeout, On_connection_close])) OpenAiWs_close = 1 \<and>
   OpenAiWs_send (JObj [(''type'', JStr ''input_audio_buffer.append''), (''audio'', JStr ''AAAA'')])
     \<notin> set (snd (run (\<lambda>v. Inl TypeError)
        (fst (step (\<lambda>v. Inl TypeError) \<lparr>streamSid = Some (JStr ''SD123''), openAiWs = OPEN, connection = OPEN, timeouts = 1\<rparr> On_connection_close))
        [On_connection_message (Json_text (JObj
         [(''event'', JStr ''media''), (''media'', JObj [(''payload'', JStr ''AAAA'')])])),
       On_timeout, On_connection_close]))"
proof -
  have ne: "JObj [(''type'', JStr ''input_audio_buffer.append''), (''audio'', JStr ''AAAA'')]
      \<noteq> sessionUpdate"
    by (simp add: sessionUpdate_def)
  have no: "On_openAiWs_open \<notin> set [On_connection_message (Json_text (JObj
         [(''event'', JStr ''media''), (''media'', JObj [(''payload'', JStr ''AAAA'')])])),
       On_timeout, On_connection_close]"
    by simp
  have op: "openAiWs \<lparr>streamSid = Some (JStr ''SD123''), openAiWs = OPEN, connection = OPEN, timeouts = 1\<rparr> = OPEN"
    by simp
  show ?thesis
    using telephony_close_closes_ai_once [OF op no, of "\<lambda>v. Inl TypeError"
        "JObj [(''type'', JStr ''input_audio_buffer.append''), (''audio'', JStr ''AAAA'')]"] ne op
    by blast
qed

text \<open>
  Claim C10. If the telephony connection closes while the AI connection is not OPEN (in
  particular while it is still connecting), the close handler only logs: it makes no
  call on the AI connection, whose \<open>readyState\<close> and pending timers are untouched, and
  the rest of the run proceeds from that state; an AI \<^verbatim>\<open>open\<close> that follows is
  acknowledged and its session configuration is sent as usual.
\<close>

theorem telephony_close_does_not_close_connecting_ai:
  assumes "openAiWs st \<noteq> OPEN"
  shows "step B st On_connection_close =
           (st\<lparr>connection := CLOSED\<rparr>, [Console_log ''Cliente desconectado.'']) \<and>
         snd (run B st (On_connection_close # evs)) =
           Console_log ''Cliente desconectado.'' # snd (run B (st\<lparr>connection := CLOSED\<rparr>) evs) \<and>
         run B st [On_connection_close, On_openAiWs_open, On_timeout] =
           (st\<lparr>connection := CLOSED, openAiWs := OPEN\<rparr>,
            [Console_log ''Cliente desconectado.'',
             Console_log ''Conectado a la API Realtime de OpenAI'',
             Console_log (''Enviando actualizaci'' @ [CHR 0xC3, CHR 0xB3] @ ''n de sesi''
                         @ [CHR 0xC3, CHR 0xB3] @ ''n:''),
             OpenAiWs_send sessionUpdate])"
proof -
  have c: "step B st On_connection_close =
           (st\<lparr>connection := CLOSED\<rparr>, [Console_log ''Cliente desconectado.''])"
    using assms by (simp add: connection_on_close_def)
  have r: "run B (st\<lparr>connection := CLOSED\<rparr>) [On_openAiWs_open, On_timeout] =
           (st\<lparr>connection := CLOSED, openAiWs := OPEN\<rparr>,
            [Console_log ''Conectado a la API Realtime de OpenAI'',
             Console_log (''Enviando actualizaci'' @ [CHR 0xC3, CHR 0xB3] @ ''n de sesi''
                         @ [CHR 0xC3, CHR 0xB3] @ ''n:''),
             OpenAiWs_send sessionUpdate])"
    by (simp add: openAiWs_on_open_def sendSessionUpdate_def)
  have "run B st [On_connection_close, On_openAiWs_open, On_timeout] =
           (st\<lparr>connection := CLOSED, openAiWs := OPEN\<rparr>,
            [Console_log ''Cliente desconectado.'',
             Console_log ''Conectado a la API Realtime de OpenAI'',
             Console_log (''Enviando actualizaci'' @ [CHR 0xC3, CHR 0xB3] @ ''n de sesi''
                         @ [CHR 0xC3, CHR 0xB3] @ ''n:''),
             OpenAiWs_send sessionUpdate])"
    using c r by (simp del: step.simps)
  then show ?thesis
    using c by (simp del: step.simps split: prod.splits)
qed

theorem telephony_close_does_not_close_connecting_ai_witness:
  "openAiWs (fst media_stream) \<noteq> OPEN \<and>
   step (\<lambda>v. Inl TypeError) (fst media_stream) On_connection_close =
     (\<lparr>streamSid = Some JNull, openAiWs = CONNECTING, connection = CLOSED, timeouts = 0\<rparr>,
      [Console_log ''Cliente desconectado.'']) \<and>
   openAiWs (fst (run (\<lambda>v. Inl TypeError) (fst media_stream)
      [On_connection_close, On_openAiWs_open, On_timeout])) = OPEN"
  using telephony_close_does_not_close_connecting_ai
    [of "fst media_stream" "\<lambda>v. Inl TypeError" "[]"]
  by (simp add: media_stream_def connection_on_close_def openAiWs_on_open_def
      sendSessionUpdate_def)

end
